theory Spec2Isabelle
  imports Complex_Main
begin

section \<open>Values shared by the two Lambda functions\<close>

text \<open>
  The repository holds two AWS Lambda handlers: \<^verbatim>\<open>src/processor/processor.py\<close> (ingestion of an
  uploaded document) and \<^verbatim>\<open>src/query/query.py\<close> (question answering over the stored chunks).
  Both are glue code around external collaborators: S3, Bedrock, PostgreSQL with pgvector,
  PyPDF2, python-docx and langchain's text splitter. The collaborators are not part of the
  repository; they enter the model as the fields of an environment record, each returning
  either a value or the exception it raised.

  Python values decoded from JSON are modelled by the following datatype. A dict is an
  association list read with \<open>map_of\<close>. Floats are abstracted to real numbers (no NaN, no
  rounding). Text is a \<open>string\<close>; \<open>str.lower\<close> is modelled on ASCII letters only.
\<close>

datatype json =
    JNull
  | JBool bool
  | JInt int
  | JFloat real
  | JStr string
  | JArr "json list"
  | JObj "(string \<times> json) list"

text \<open>Exceptions. Those raised by a collaborator carry whatever the environment supplies.\<close>

datatype error =
    KeyError
  | IndexError
  | TypeError
  | AttributeError
  | ValueError string
  | ParamValidationError
  | ExternalError string

text \<open>The SQL statements the two handlers issue; each may fail at the database.\<close>

datatype db_stmt =
    Connect
  | SelectFileHash
  | DeleteEmbeddings
  | InsertEmbeddings
  | UpsertProcessedFile
  | Commit
  | SelectNearest

text \<open>A row of table \<^verbatim>\<open>embeddings\<close>, with the columns of the INSERT in processor.py, lines 166-169.\<close>

record embedding_row =
  row_chunk_text :: string
  row_embedding :: "real list"
  row_filename :: string
  row_chunk_index :: nat
  row_file_hash :: string

text \<open>A row returned by the SELECT of query.py, lines 55-62 (a \<^verbatim>\<open>RealDictCursor\<close> row).\<close>

record search_row =
  res_chunk_text :: string
  res_filename :: string
  res_chunk_index :: nat
  res_similarity :: real

text \<open>
  The database: table \<^verbatim>\<open>embeddings\<close>, and table \<^verbatim>\<open>processed_files\<close> keyed by its unique column
  \<^verbatim>\<open>filename\<close> (the \<^verbatim>\<open>ON CONFLICT (filename)\<close> of processor.py, line 179) and holding
  \<^verbatim>\<open>(file_hash, chunk_count)\<close>. Column \<^verbatim>\<open>processed_at\<close> is a wall-clock time and is left out.
\<close>

record store =
  embeddings :: "embedding_row list"
  processed_files :: "string \<rightharpoonup> (string \<times> nat)"

text \<open>Every call that leaves the process, in the order it is made.\<close>

datatype call =
    S3GetObject string string
  | DbConnect
  | DbSelectFileHash string
  | ExtractText string
  | SplitText
  | BedrockEmbed json
  | DbDelete string
  | DbInsert "embedding_row list"
  | DbUpsert string string nat
  | DbCommit
  | DbClose
  | DbSelectNearest "real list" json
  | BedrockClaude json "search_row list"

text \<open>
  The world a handler runs in. \<^verbatim>\<open>psycopg2.connect\<close> returns a connection that is not in
  autocommit mode: its first \<^verbatim>\<open>execute\<close> opens a transaction, the statements that follow
  work on that transaction's view (\<open>pending\<close>), and only \<^verbatim>\<open>conn.commit()\<close> makes them the
  database's \<open>committed\<close> state. A connection that is closed or dropped without a commit
  loses its pending writes. \<open>visible\<close> records, after each call, the committed state that
  another session reading the database would see at that moment.
\<close>

record world =
  committed :: store
  pending :: "store option"
  calls :: "call list"
  visible :: "store list"

record env =
  json_loads :: "string \<Rightarrow> error + json"
  s3_get_object :: "nat \<Rightarrow> string \<Rightarrow> string \<Rightarrow> error + string"
  md5_hexdigest :: "string \<Rightarrow> string"
  pdf_page_texts :: "string \<Rightarrow> error + string list"
  docx_paragraph_texts :: "string \<Rightarrow> error + string list"
  utf8_decode :: "string \<Rightarrow> error + string"
  split_text :: "nat \<Rightarrow> nat \<Rightarrow> string list \<Rightarrow> string \<Rightarrow> error + string list"
  titan_embed :: "json \<Rightarrow> error + real list"
  claude_answer :: "json \<Rightarrow> search_row list \<Rightarrow> error + string"
  db_fault :: "db_stmt \<Rightarrow> error option"
  cosine_distance :: "real list \<Rightarrow> real list \<Rightarrow> real"
  limit_coercion :: "json \<Rightarrow> error + nat option"

text \<open>
  \<^item> \<open>json_loads\<close>: \<^verbatim>\<open>json.loads\<close>.
  \<^item> \<open>s3_get_object n bucket key\<close>: the bytes read by the \<open>n\<close>-th \<^verbatim>\<open>s3.get_object\<close> of one
    invocation (the handler fetches the object three times; the object may change or the
    call may fail in between).
  \<^item> \<open>md5_hexdigest\<close>: \<^verbatim>\<open>hashlib.md5(b).hexdigest()\<close>.
  \<^item> \<open>pdf_page_texts\<close>, \<open>docx_paragraph_texts\<close>: the page texts PyPDF2 extracts and the
    paragraph texts python-docx reads, in document order.
  \<^item> \<open>utf8_decode\<close>: \<^verbatim>\<open>bytes.decode('utf-8')\<close>.
  \<^item> \<open>split_text size overlap separators\<close>: langchain's
    \<^verbatim>\<open>RecursiveCharacterTextSplitter(...).split_text\<close>.
  \<^item> \<open>titan_embed\<close>: the Bedrock Titan embedding of \<^verbatim>\<open>{"inputText": text}\<close>.
  \<^item> \<open>claude_answer question chunks\<close>: the Bedrock Claude reply to the prompt that
    \<^verbatim>\<open>query_claude\<close> assembles from the question and the chunks.
  \<^item> \<open>db_fault\<close>: the exception, if any, with which the database rejects a statement.
  \<^item> \<open>cosine_distance\<close>: pgvector's operator \<^verbatim>\<open><=>\<close>.
  \<^item> \<open>limit_coercion\<close>: what PostgreSQL makes of a \<^verbatim>\<open>LIMIT\<close> argument that is neither an
    integer nor NULL.
\<close>

subsection \<open>Sequencing effects that may raise\<close>

type_synonym 'a io = "world \<Rightarrow> (error + 'a) \<times> world"

definition io_return :: "'a \<Rightarrow> 'a io" where
  "io_return x w = (Inr x, w)"

definition io_lift :: "error + 'a \<Rightarrow> 'a io" where
  "io_lift r w = (r, w)"

definition io_bind :: "'a io \<Rightarrow> ('a \<Rightarrow> 'b io) \<Rightarrow> 'b io" where
  "io_bind m f w = (case m w of (Inl e, w') \<Rightarrow> (Inl e, w') | (Inr x, w') \<Rightarrow> f x w')"

definition log_call :: "call \<Rightarrow> world \<Rightarrow> world" where
  "log_call c w = w\<lparr>calls := calls w @ [c], visible := visible w @ [committed w]\<rparr>"

definition working :: "world \<Rightarrow> store" where
  "working w = (case pending w of None \<Rightarrow> committed w | Some s \<Rightarrow> s)"

text \<open>\<^verbatim>\<open>get_db_connection\<close> (both files, \<^verbatim>\<open>psycopg2.connect\<close>).\<close>

definition get_db_connection :: "env \<Rightarrow> unit io" where
  "get_db_connection env w =
     (case db_fault env Connect of
        Some e \<Rightarrow> (Inl e, log_call DbConnect w)
      | None \<Rightarrow> (Inr (), log_call DbConnect (w\<lparr>pending := None\<rparr>)))"

text \<open>\<^verbatim>\<open>cursor.close(); conn.close()\<close>: an open transaction is discarded.\<close>

definition db_close :: "unit io" where
  "db_close w = (Inr (), log_call DbClose (w\<lparr>pending := None\<rparr>))"

text \<open>\<^verbatim>\<open>get_embedding\<close> (identical in both files).\<close>

definition get_embedding :: "env \<Rightarrow> json \<Rightarrow> (real list) io" where
  "get_embedding env text w = (titan_embed env text, log_call (BedrockEmbed text) w)"

section \<open>query.py\<close>

datatype query_body =
    ErrorText string
  | ErrorOf error
  | Answer json string "(string \<times> nat \<times> real) list"

text \<open>
  The \<^verbatim>\<open>body\<close> of a response before \<^verbatim>\<open>json.dumps\<close>: \<open>ErrorText m\<close> is \<^verbatim>\<open>{'error': m}\<close>,
  \<open>ErrorOf e\<close> is \<^verbatim>\<open>{'error': str(e)}\<close>, and \<open>Answer q a srcs\<close> is
  \<^verbatim>\<open>{'question': q, 'answer': a, 'sources': [{filename, chunk_index, similarity}, ...]}\<close>.
\<close>

record query_response =
  q_statusCode :: int
  q_headers :: "(string \<times> string) list"
  q_body :: query_body

text \<open>Python's truth value of a JSON-decoded object (\<^verbatim>\<open>not question\<close>, line 135).\<close>

fun truthy :: "json \<Rightarrow> bool" where
  "truthy JNull = False"
| "truthy (JBool b) = b"
| "truthy (JInt i) = (i \<noteq> 0)"
| "truthy (JFloat r) = (r \<noteq> 0)"
| "truthy (JStr s) = (s \<noteq> [])"
| "truthy (JArr xs) = (xs \<noteq> [])"
| "truthy (JObj kvs) = (kvs \<noteq> [])"

text \<open>\<^verbatim>\<open>d.get(k, default)\<close>; only a dict has the method.\<close>

definition dict_get :: "json \<Rightarrow> string \<Rightarrow> json \<Rightarrow> error + json" where
  "dict_get d k dflt =
     (case d of
        JObj kvs \<Rightarrow> Inr (case map_of kvs k of None \<Rightarrow> dflt | Some v \<Rightarrow> v)
      | _ \<Rightarrow> Inl AttributeError)"

text \<open>Lines 127-130: the request body is the event's \<^verbatim>\<open>body\<close>, decoded when it is a string,
  or the event itself when there is no such key.\<close>

definition parse_body :: "env \<Rightarrow> (string \<times> json) list \<Rightarrow> error + json" where
  "parse_body env event =
     (case map_of event ''body'' of
        None \<Rightarrow> Inr (JObj event)
      | Some b \<Rightarrow> (case b of JStr s \<Rightarrow> json_loads env s | _ \<Rightarrow> Inr b))"

text \<open>
  The \<^verbatim>\<open>LIMIT %s\<close> of line 62. psycopg2 sends an int as a number and \<^verbatim>\<open>None\<close> as NULL.
  PostgreSQL's \<^verbatim>\<open>LIMIT\<close> is a bigint: an integer outside \<open>-2^63 ..< 2^63\<close> is out of range,
  a negative one is rejected, and \<^verbatim>\<open>LIMIT NULL\<close> is no limit.
\<close>

definition pg_limit :: "env \<Rightarrow> json \<Rightarrow> error + nat option" where
  "pg_limit env top_k =
     (case top_k of
        JInt k \<Rightarrow>
          (if k < - (2 ^ 63) \<or> 2 ^ 63 \<le> k then Inl (ExternalError ''bigint out of range'')
           else if k < 0 then Inl (ExternalError ''LIMIT must not be negative'')
           else Inr (Some (nat k)))
      | JNull \<Rightarrow> Inr None
      | _ \<Rightarrow> limit_coercion env top_k)"

definition distance_to :: "env \<Rightarrow> real list \<Rightarrow> embedding_row \<Rightarrow> real" where
  "distance_to env q r = cosine_distance env (row_embedding r) q"

definition result_row :: "env \<Rightarrow> real list \<Rightarrow> embedding_row \<Rightarrow> search_row" where
  "result_row env q r =
     \<lparr>res_chunk_text = row_chunk_text r, res_filename = row_filename r,
      res_chunk_index = row_chunk_index r, res_similarity = 1 - distance_to env q r\<rparr>"

text \<open>
  The SELECT of lines 55-62 on a table: \<^verbatim>\<open>ORDER BY embedding <=> q\<close>, then \<^verbatim>\<open>LIMIT\<close>, then the
  projection with \<^verbatim>\<open>1 - (embedding <=> q) as similarity\<close>. Rows at equal distance come in
  table order here; PostgreSQL promises no order among them.
\<close>

definition nearest_rows :: "env \<Rightarrow> real list \<Rightarrow> nat option \<Rightarrow> embedding_row list \<Rightarrow> embedding_row list" where
  "nearest_rows env q bound rows =
     (let ordered = sort_key (distance_to env q) rows
      in case bound of None \<Rightarrow> ordered | Some k \<Rightarrow> take k ordered)"

definition db_select_nearest :: "env \<Rightarrow> real list \<Rightarrow> json \<Rightarrow> (search_row list) io" where
  "db_select_nearest env q top_k w =
     (let w' = log_call (DbSelectNearest q top_k) w in
      case db_fault env SelectNearest of
        Some e \<Rightarrow> (Inl e, w')
      | None \<Rightarrow>
         (case pg_limit env top_k of
            Inl e \<Rightarrow> (Inl e, w')
          | Inr bound \<Rightarrow>
              (Inr (map (result_row env q) (nearest_rows env q bound (embeddings (committed w)))), w')))"

text \<open>\<^verbatim>\<open>similarity_search\<close>, lines 44-71.\<close>

definition similarity_search :: "env \<Rightarrow> real list \<Rightarrow> json \<Rightarrow> (search_row list) io" where
  "similarity_search env query_embedding top_k =
     io_bind (get_db_connection env) (\<lambda>_.
     io_bind (db_select_nearest env query_embedding top_k) (\<lambda>results.
     io_bind db_close (\<lambda>_.
     io_return results)))"

text \<open>\<^verbatim>\<open>query_claude\<close>, lines 74-120; the prompt text is left to the collaborator.\<close>

definition query_claude :: "env \<Rightarrow> json \<Rightarrow> search_row list \<Rightarrow> string io" where
  "query_claude env question context_chunks w =
     (claude_answer env question context_chunks,
      log_call (BedrockClaude question context_chunks) w)"

definition source_of :: "search_row \<Rightarrow> string \<times> nat \<times> real" where
  "source_of c = (res_filename c, res_chunk_index c, res_similarity c)"

definition json_headers :: "(string \<times> string) list" where
  "json_headers =
     [(''Content-Type'', ''application/json''), (''Access-Control-Allow-Origin'', ''*'')]"

text \<open>Lines 132-178: what the handler does with the request body.\<close>

definition handle_request :: "env \<Rightarrow> json \<Rightarrow> query_response io" where
  "handle_request env body =
     io_bind (io_lift (dict_get body ''question'' JNull)) (\<lambda>question.
     io_bind (io_lift (dict_get body ''top_k'' (JInt 5))) (\<lambda>top_k.
     if \<not> truthy question then
       io_return \<lparr>q_statusCode = 400, q_headers = [],
                  q_body = ErrorText ''Missing required field: question''\<rparr>
     else
       io_bind (get_embedding env question) (\<lambda>query_embedding.
       io_bind (similarity_search env query_embedding top_k) (\<lambda>context_chunks.
       io_bind (query_claude env question context_chunks) (\<lambda>answer.
       io_return \<lparr>q_statusCode = 200, q_headers = json_headers,
                  q_body = Answer question answer (map source_of context_chunks)\<rparr>)))))"

text \<open>The body of the \<^verbatim>\<open>try\<close> of \<^verbatim>\<open>lambda_handler\<close>, lines 126-178.\<close>

definition query_try :: "env \<Rightarrow> (string \<times> json) list \<Rightarrow> query_response io" where
  "query_try env event = io_bind (io_lift (parse_body env event)) (handle_request env)"

text \<open>The \<^verbatim>\<open>except\<close> clause, lines 180-185: every exception becomes a 500 response.\<close>

definition respond :: "(error + query_response) \<times> world \<Rightarrow> query_response \<times> world" where
  "respond outcome =
     (case outcome of
        (Inr resp, w') \<Rightarrow> (resp, w')
      | (Inl e, w') \<Rightarrow> (\<lparr>q_statusCode = 500, q_headers = [], q_body = ErrorOf e\<rparr>, w'))"

text \<open>\<^verbatim>\<open>lambda_handler\<close> of query.py, lines 123-185.\<close>

definition query_lambda_handler :: "env \<Rightarrow> (string \<times> json) list \<Rightarrow> world \<Rightarrow> query_response \<times> world" where
  "query_lambda_handler env event w = respond (query_try env event w)"

section \<open>processor.py\<close>

subsection \<open>Text extraction, lines 33-62\<close>

definition lower_char :: "char \<Rightarrow> char" where
  "lower_char c =
     (let n = (of_char c :: nat) in if 65 \<le> n \<and> n \<le> 90 then char_of (n + 32) else c)"

definition lower :: "string \<Rightarrow> string" where
  "lower s = map lower_char s"

definition endswith :: "string \<Rightarrow> string \<Rightarrow> bool" where
  "endswith s suf = (length suf \<le> length s \<and> drop (length s - length suf) s = suf)"

definition newline :: string where
  "newline = [CHR 0x0A]"

definition extract_pdf :: "env \<Rightarrow> string \<Rightarrow> error + string" where
  "extract_pdf env file_bytes =
     (case pdf_page_texts env file_bytes of
        Inl e \<Rightarrow> Inl e
      | Inr pages \<Rightarrow> Inr (concat (map (\<lambda>page. page @ newline) pages)))"

definition extract_docx :: "env \<Rightarrow> string \<Rightarrow> error + string" where
  "extract_docx env file_bytes =
     (case docx_paragraph_texts env file_bytes of
        Inl e \<Rightarrow> Inl e
      | Inr paragraphs \<Rightarrow> Inr (concat (map (\<lambda>paragraph. paragraph @ newline) paragraphs)))"

definition extract_text :: "env \<Rightarrow> string \<Rightarrow> string \<Rightarrow> error + string" where
  "extract_text env file_bytes filename =
     (let file_lower = lower filename in
      if endswith file_lower ''.pdf'' then extract_pdf env file_bytes
      else if endswith file_lower ''.docx'' then extract_docx env file_bytes
      else if endswith file_lower ''.txt'' then utf8_decode env file_bytes
      else Inl (ValueError (''Unsupported file type: '' @ filename)))"

subsection \<open>Chunking, lines 82-89\<close>

definition separators :: "string list" where
  "separators = [newline @ newline, newline, ''. '', '' '', []]"

definition chunk_text :: "env \<Rightarrow> string \<Rightarrow> error + string list" where
  "chunk_text env text = split_text env 1000 200 separators text"

subsection \<open>Reading the S3 event, lines 96-97\<close>

text \<open>\<^verbatim>\<open>v[k]\<close> for a string \<open>k\<close>, and \<^verbatim>\<open>v[0]\<close>, on a JSON-decoded value.\<close>

fun subscript :: "json \<Rightarrow> string \<Rightarrow> error + json" where
  "subscript (JObj kvs) k = (case map_of kvs k of None \<Rightarrow> Inl KeyError | Some v \<Rightarrow> Inr v)"
| "subscript _ k = Inl TypeError"

fun subscript0 :: "json \<Rightarrow> error + json" where
  "subscript0 (JArr []) = Inl IndexError"
| "subscript0 (JArr (x # xs)) = Inr x"
| "subscript0 (JStr []) = Inl IndexError"
| "subscript0 (JStr (c # cs)) = Inr (JStr [c])"
| "subscript0 (JObj kvs) = Inl KeyError"
| "subscript0 _ = Inl TypeError"

definition sum_bind :: "error + 'a \<Rightarrow> ('a \<Rightarrow> error + 'b) \<Rightarrow> error + 'b" where
  "sum_bind r f = (case r of Inl e \<Rightarrow> Inl e | Inr x \<Rightarrow> f x)"

text \<open>\<^verbatim>\<open>event['Records'][0]['s3'][a][b]\<close>.\<close>

definition s3_field :: "json \<Rightarrow> string \<Rightarrow> string \<Rightarrow> error + json" where
  "s3_field event a b =
     sum_bind (subscript event ''Records'') (\<lambda>records.
     sum_bind (subscript0 records) (\<lambda>record0.
     sum_bind (subscript record0 ''s3'') (\<lambda>s3.
     sum_bind (subscript s3 a) (\<lambda>x.
     subscript x b))))"

text \<open>
  boto3 checks the types of \<^verbatim>\<open>Bucket\<close> and \<^verbatim>\<open>Key\<close> before it sends a request: the first
  \<^verbatim>\<open>s3.get_object\<close> raises unless both are strings, and from there on both are. What
  boto3 and S3 make of a malformed bucket name or an empty key is the environment's answer
  to \<open>s3_get_object\<close>.
\<close>

definition str_params :: "json \<Rightarrow> json \<Rightarrow> error + string \<times> string" where
  "str_params bucket key =
     (case bucket of
        JStr b \<Rightarrow> (case key of JStr k \<Rightarrow> Inr (b, k) | _ \<Rightarrow> Inl ParamValidationError)
      | _ \<Rightarrow> Inl ParamValidationError)"

subsection \<open>The calls of the handler\<close>

text \<open>\<^verbatim>\<open>s3.get_object(Bucket=bucket, Key=key)\<close> with its body read.\<close>

definition s3_get :: "env \<Rightarrow> nat \<Rightarrow> string \<Rightarrow> string \<Rightarrow> string io" where
  "s3_get env n bucket key w = (s3_get_object env n bucket key, log_call (S3GetObject bucket key) w)"

text \<open>Lines 114-118: the SELECT opens the connection's transaction.\<close>

definition db_select_file_hash :: "env \<Rightarrow> string \<Rightarrow> (string option) io" where
  "db_select_file_hash env key w =
     (case db_fault env SelectFileHash of
        Some e \<Rightarrow> (Inl e, log_call (DbSelectFileHash key) w)
      | None \<Rightarrow>
          (let s = working w
           in (Inr (map_option fst (processed_files s key)),
               log_call (DbSelectFileHash key) (w\<lparr>pending := Some s\<rparr>))))"

text \<open>Line 161.\<close>

definition db_delete :: "env \<Rightarrow> string \<Rightarrow> unit io" where
  "db_delete env key w =
     (case db_fault env DeleteEmbeddings of
        Some e \<Rightarrow> (Inl e, log_call (DbDelete key) w)
      | None \<Rightarrow>
          (let s = working w
           in (Inr (),
               log_call (DbDelete key)
                 (w\<lparr>pending := Some (s\<lparr>embeddings := filter (\<lambda>r. row_filename r \<noteq> key) (embeddings s)\<rparr>)\<rparr>))))"

text \<open>Lines 164-172. \<^verbatim>\<open>execute_values\<close> on an empty list sends no statement.\<close>

definition db_insert :: "env \<Rightarrow> embedding_row list \<Rightarrow> unit io" where
  "db_insert env embeddings_data w =
     (if embeddings_data = [] then (Inr (), w)
      else case db_fault env InsertEmbeddings of
        Some e \<Rightarrow> (Inl e, log_call (DbInsert embeddings_data) w)
      | None \<Rightarrow>
          (let s = working w
           in (Inr (),
               log_call (DbInsert embeddings_data)
                 (w\<lparr>pending := Some (s\<lparr>embeddings := embeddings s @ embeddings_data\<rparr>)\<rparr>))))"

text \<open>Lines 175-185.\<close>

definition db_upsert :: "env \<Rightarrow> string \<Rightarrow> string \<Rightarrow> nat \<Rightarrow> unit io" where
  "db_upsert env key file_hash chunk_count w =
     (case db_fault env UpsertProcessedFile of
        Some e \<Rightarrow> (Inl e, log_call (DbUpsert key file_hash chunk_count) w)
      | None \<Rightarrow>
          (let s = working w
           in (Inr (),
               log_call (DbUpsert key file_hash chunk_count)
                 (w\<lparr>pending := Some (s\<lparr>processed_files := (processed_files s)(key \<mapsto> (file_hash, chunk_count))\<rparr>)\<rparr>))))"

text \<open>Line 187.\<close>

definition db_commit :: "env \<Rightarrow> unit io" where
  "db_commit env w =
     (case db_fault env Commit of
        Some e \<Rightarrow> (Inl e, log_call DbCommit w)
      | None \<Rightarrow> (Inr (), log_call DbCommit (w\<lparr>committed := working w, pending := None\<rparr>)))"

text \<open>Line 132, with the call recorded.\<close>

definition do_extract_text :: "env \<Rightarrow> string \<Rightarrow> string \<Rightarrow> string io" where
  "do_extract_text env file_bytes key w =
     (extract_text env file_bytes key, log_call (ExtractText key) w)"

text \<open>Line 138, with the call recorded.\<close>

definition do_chunk_text :: "env \<Rightarrow> string \<Rightarrow> (string list) io" where
  "do_chunk_text env text w = (chunk_text env text, log_call SplitText w)"

text \<open>The loop of lines 143-158; \<open>i\<close> is the counter of \<^verbatim>\<open>enumerate\<close>.\<close>

fun embed_loop :: "env \<Rightarrow> string \<Rightarrow> string \<Rightarrow> nat \<Rightarrow> string list \<Rightarrow> embedding_row list \<Rightarrow> (embedding_row list) io" where
  "embed_loop env key file_hash i [] embeddings_data w = (Inr embeddings_data, w)"
| "embed_loop env key file_hash i (chunk # rest) embeddings_data w =
     (case get_embedding env (JStr chunk) w of
        (Inl e, w') \<Rightarrow> (Inl e, w')
      | (Inr embedding, w') \<Rightarrow>
          embed_loop env key file_hash (Suc i) rest
            (embeddings_data @
               [\<lparr>row_chunk_text = chunk, row_embedding = embedding, row_filename = key,
                 row_chunk_index = i, row_file_hash = file_hash\<rparr>]) w')"

subsection \<open>The handler, lines 92-204\<close>

datatype processor_body =
    Text string
  | Processed string string nat

text \<open>
  \<open>Text m\<close> is \<^verbatim>\<open>json.dumps(m)\<close>; \<open>Processed m f n\<close> is
  \<^verbatim>\<open>json.dumps({'message': m, 'filename': f, 'chunks': n})\<close>.
\<close>

record processor_response =
  p_statusCode :: int
  p_body :: processor_body

text \<open>Lines 160-200: delete, insert, upsert, commit, close, respond.\<close>

definition persist :: "env \<Rightarrow> string \<Rightarrow> string \<Rightarrow> nat \<Rightarrow> embedding_row list \<Rightarrow> processor_response io" where
  "persist env key file_hash chunk_count embeddings_data =
     io_bind (db_delete env key) (\<lambda>_.
     io_bind (db_insert env embeddings_data) (\<lambda>_.
     io_bind (db_upsert env key file_hash chunk_count) (\<lambda>_.
     io_bind (db_commit env) (\<lambda>_.
     io_bind db_close (\<lambda>_.
     io_return \<lparr>p_statusCode = 200,
                p_body = Processed ''File processed successfully'' key chunk_count\<rparr>)))))"

text \<open>Lines 129-158 followed by \<open>persist\<close>: the path taken when the stored hash is absent
  or differs.\<close>

definition process_file :: "env \<Rightarrow> string \<Rightarrow> string \<Rightarrow> string \<Rightarrow> processor_response io" where
  "process_file env bucket key file_hash =
     io_bind (s3_get env 2 bucket key) (\<lambda>body.
     io_bind (do_extract_text env body key) (\<lambda>text.
     io_bind (do_chunk_text env text) (\<lambda>chunks.
     io_bind (embed_loop env key file_hash 0 chunks []) (\<lambda>embeddings_data.
     persist env key file_hash (length chunks) embeddings_data))))"

text \<open>Lines 95-127 followed by \<open>process_file\<close>: the body of the \<^verbatim>\<open>try\<close>.\<close>

definition processor_try :: "env \<Rightarrow> json \<Rightarrow> processor_response io" where
  "processor_try env event =
     io_bind (io_lift (s3_field event ''bucket'' ''name'')) (\<lambda>bucket_value.
     io_bind (io_lift (s3_field event ''object'' ''key'')) (\<lambda>key_value.
     io_bind (io_lift (str_params bucket_value key_value)) (\<lambda>(bucket, key).
     io_bind (s3_get env 0 bucket key) (\<lambda>_.
     io_bind (s3_get env 1 bucket key) (\<lambda>file_bytes.
     let file_hash = md5_hexdigest env file_bytes in
     io_bind (get_db_connection env) (\<lambda>_.
     io_bind (db_select_file_hash env key) (\<lambda>result.
     if result = Some file_hash then
       io_bind db_close (\<lambda>_.
       io_return \<lparr>p_statusCode = 200, p_body = Text ''File already processed''\<rparr>)
     else process_file env bucket key file_hash)))))))"

text \<open>
  \<^verbatim>\<open>lambda_handler\<close> of processor.py: the \<^verbatim>\<open>except\<close> clause re-raises, and the connection is
  left behind without a commit.
\<close>

definition processor_lambda_handler :: "env \<Rightarrow> json \<Rightarrow> world \<Rightarrow> (error + processor_response) \<times> world" where
  "processor_lambda_handler env event w =
     (case processor_try env event w of
        (Inr resp, w') \<Rightarrow> (Inr resp, w')
      | (Inl e, w') \<Rightarrow> (Inl e, w'\<lparr>pending := None\<rparr>))"

section \<open>Vocabulary of the properties\<close>

subsection \<open>Outcomes\<close>

text \<open>
  The replacement of a document as one step, in the words of the specification: every prior
  chunk of the key is gone, the new chunks are there, and the metadata row holds the new hash
  and the number of new chunks.
\<close>

definition replace_document :: "string \<Rightarrow> string \<Rightarrow> embedding_row list \<Rightarrow> store \<Rightarrow> store" where
  "replace_document key file_hash rows s =
     \<lparr>embeddings = filter (\<lambda>r. row_filename r \<noteq> key) (embeddings s) @ rows,
      processed_files = (processed_files s)(key \<mapsto> (file_hash, length rows))\<rparr>"


definition already_processed :: processor_response where
  "already_processed = \<lparr>p_statusCode = 200, p_body = Text ''File already processed''\<rparr>"

definition processed :: "string \<Rightarrow> nat \<Rightarrow> processor_response" where
  "processed key n =
     \<lparr>p_statusCode = 200, p_body = Processed ''File processed successfully'' key n\<rparr>"

definition missing_question_response :: query_response where
  "missing_question_response =
     \<lparr>q_statusCode = 400, q_headers = [],
      q_body = ErrorText ''Missing required field: question''\<rparr>"

definition server_error :: "error \<Rightarrow> query_response" where
  "server_error e = \<lparr>q_statusCode = 500, q_headers = [], q_body = ErrorOf e\<rparr>"

text \<open>The \<^verbatim>\<open>top_k\<close> of a request body: \<^verbatim>\<open>body.get('top_k', 5)\<close>, line 133.\<close>

definition requested_top_k :: "(string \<times> json) list \<Rightarrow> json" where
  "requested_top_k b = (case map_of b ''top_k'' of None \<Rightarrow> JInt 5 | Some k \<Rightarrow> k)"

text \<open>The rows the SELECT of query.py returns from the committed database under an accepted
  limit.\<close>

definition found_chunks :: "env \<Rightarrow> real list \<Rightarrow> nat option \<Rightarrow> world \<Rightarrow> search_row list" where
  "found_chunks env v bound w =
     map (result_row env v) (nearest_rows env v bound (embeddings (committed w)))"


subsection \<open>Worlds that differ by recorded calls\<close>

text \<open>\<open>logged cs w\<close> is \<open>w\<close> after the calls \<open>cs\<close>, none of which committed anything.\<close>

definition logged :: "call list \<Rightarrow> world \<Rightarrow> world" where
  "logged cs w =
     w\<lparr>calls := calls w @ cs, visible := visible w @ replicate (length cs) (committed w)\<rparr>"

text \<open>
  \<open>quiet w w'\<close>: between \<open>w\<close> and \<open>w'\<close> the committed database did not change, and
  nothing else was visible. \<open>atomic_from w (r, w')\<close>: between \<open>w\<close> and \<open>w'\<close> only the
  committed database of \<open>w\<close> or that of \<open>w'\<close> was visible, and the two are equal when
  \<open>r\<close> is an exception.
\<close>

definition quiet :: "world \<Rightarrow> world \<Rightarrow> bool" where
  "quiet w w' \<longleftrightarrow>
     committed w' = committed w \<and>
     (\<exists>xs. visible w' = visible w @ xs \<and> set xs \<subseteq> {committed w})"

definition quiet_step :: "'a io \<Rightarrow> bool" where
  "quiet_step m \<longleftrightarrow> (\<forall>w r w'. m w = (r, w') \<longrightarrow> quiet w w')"

definition atomic_from :: "world \<Rightarrow> (error + 'a) \<times> world \<Rightarrow> bool" where
  "atomic_from w rw \<longleftrightarrow>
     (\<exists>xs. visible (snd rw) = visible w @ xs \<and> set xs \<subseteq> {committed w, committed (snd rw)}) \<and>
     (\<forall>e. fst rw = Inl e \<longrightarrow> committed (snd rw) = committed w)"

definition atomic :: "'a io \<Rightarrow> bool" where
  "atomic m \<longleftrightarrow> (\<forall>w. atomic_from w (m w))"

subsection \<open>A concrete environment\<close>

text \<open>
  A small world to run the handlers in: one text object in the bucket, collaborators that
  answer with fixed values, a splitter that cuts after five characters, and a distance that
  compares first coordinates. \<open>md5_hexdigest\<close> is a stand-in that tags the bytes.
\<close>

definition demo_env :: env where
  "demo_env =
     \<lparr>json_loads = (\<lambda>s. if s = ''ask'' then Inr (JObj [(''question'', JStr ''capital?'')])
                         else Inl (ValueError ''no JSON'')),
      s3_get_object = (\<lambda>n bucket key. Inr ''hello world''),
      md5_hexdigest = (\<lambda>b. ''#'' @ b),
      pdf_page_texts = (\<lambda>b. Inr [b]),
      docx_paragraph_texts = (\<lambda>b. Inr [b]),
      utf8_decode = Inr,
      split_text = (\<lambda>size overlap seps text. Inr [take 5 text, drop 5 text]),
      titan_embed = (\<lambda>t. Inr [1, 0]),
      claude_answer = (\<lambda>q cs. Inr ''Paris''),
      db_fault = (\<lambda>stmt. None),
      cosine_distance = (\<lambda>a b. case a of [] \<Rightarrow> 1 | x # _ \<Rightarrow> (case b of [] \<Rightarrow> 1 | y # _ \<Rightarrow> \<bar>x - y\<bar>)),
      limit_coercion = (\<lambda>v. Inl (ExternalError ''LIMIT''))\<rparr>"

definition s3_event :: "string \<Rightarrow> string \<Rightarrow> json" where
  "s3_event bucket key =
     JObj [(''Records'',
       JArr [JObj [(''s3'',
         JObj [(''bucket'', JObj [(''name'', JStr bucket)]),
               (''object'', JObj [(''key'', JStr key)])])]])]"

definition demo_row :: "string \<Rightarrow> real \<Rightarrow> string \<Rightarrow> nat \<Rightarrow> string \<Rightarrow> embedding_row" where
  "demo_row text x key i h =
     \<lparr>row_chunk_text = text, row_embedding = [x, 0], row_filename = key,
      row_chunk_index = i, row_file_hash = h\<rparr>"

definition demo_store :: store where
  "demo_store =
     \<lparr>embeddings =
        [demo_row ''Berlin'' 3 ''doc2'' 0 ''h2'',
         demo_row ''Paris'' 1 ''doc1'' 0 ''h1'',
         demo_row ''Rome'' 2 ''doc2'' 1 ''h2''],
      processed_files = [''doc1'' \<mapsto> (''h1'', 1), ''doc2'' \<mapsto> (''h2'', 2)]\<rparr>"

definition world_of :: "store \<Rightarrow> world" where
  "world_of s = \<lparr>committed = s, pending = None, calls = [], visible = []\<rparr>"

definition stored_notes :: "string \<Rightarrow> store" where
  "stored_notes h =
     replace_document ''notes.txt'' h
       [demo_row ''old a'' 4 ''notes.txt'' 0 h, demo_row ''old b'' 5 ''notes.txt'' 1 h,
        demo_row ''old c'' 6 ''notes.txt'' 2 h]
       demo_store"

definition insert_fails :: "db_stmt \<Rightarrow> error option" where
  "insert_fails stmt = (if stmt = InsertEmbeddings then Some (ExternalError ''down'') else None)"

definition search_fails :: "db_stmt \<Rightarrow> error option" where
  "search_fails stmt = (if stmt = SelectNearest then Some (ExternalError ''down'') else None)"

definition library :: store where
  "library =
     \<lparr>embeddings =
        [demo_row ''a'' 1 ''book'' 0 ''h'', demo_row ''b'' 2 ''book'' 1 ''h'',
         demo_row ''c'' 3 ''book'' 2 ''h'', demo_row ''d'' 1 ''book'' 3 ''h'',
         demo_row ''e'' 2 ''book'' 4 ''h'', demo_row ''f'' 3 ''book'' 5 ''h''],
      processed_files = [''book'' \<mapsto> (''h'', 6)]\<rparr>"

lemmas handler_defs =
  processor_lambda_handler_def processor_try_def process_file_def persist_def
  io_bind_def io_lift_def io_return_def str_params_def s3_field_def sum_bind_def
  s3_get_def get_db_connection_def db_select_file_hash_def db_close_def db_delete_def
  db_insert_def db_upsert_def db_commit_def do_extract_text_def do_chunk_text_def
  get_embedding_def extract_text_def extract_pdf_def extract_docx_def chunk_text_def
  lower_def lower_char_def endswith_def log_call_def working_def Let_def
  query_lambda_handler_def respond_def query_try_def handle_request_def parse_body_def dict_get_def similarity_search_def
  db_select_nearest_def pg_limit_def nearest_rows_def result_row_def distance_to_def
  query_claude_def source_of_def

lemmas demo_defs = demo_env_def s3_event_def demo_row_def demo_store_def world_of_def
  stored_notes_def replace_document_def insert_fails_def search_fails_def library_def

section \<open>Auxiliary facts\<close>

subsection \<open>Recorded calls\<close>

lemma logged_fields [simp]:
  "committed (logged cs w) = committed w"
  "pending (logged cs w) = pending w"
  "calls (logged cs w) = calls w @ cs"
  "visible (logged cs w) = visible w @ replicate (length cs) (committed w)"
  "working (logged cs w) = working w"
  by (simp_all add: logged_def working_def split: option.splits)

lemma working_pending [simp]:
  "working (w\<lparr>pending := Some s\<rparr>) = s"
  "working (w\<lparr>pending := None\<rparr>) = committed w"
  by (simp_all add: working_def)

lemma log_call_logged: "log_call c w = logged [c] w"
  by (simp add: log_call_def logged_def)

lemma logged_logged: "logged cs (logged ds w) = logged (ds @ cs) w"
  by (simp add: logged_def replicate_add)

lemma logged_pending: "(logged cs w)\<lparr>pending := p\<rparr> = logged cs (w\<lparr>pending := p\<rparr>)"
  by (simp add: logged_def)

lemma logged_Nil [simp]: "logged [] w = w"
  by (simp add: logged_def)

subsection \<open>Steps that leave the committed database alone\<close>

lemma quiet_logged: "quiet w (logged cs (w\<lparr>pending := p\<rparr>))"
  by (auto simp: quiet_def)

lemma quiet_logged_same: "quiet w (logged cs w)"
  by (auto simp: quiet_def)

lemma quiet_refl: "quiet w w"
  by (simp add: quiet_def)

lemma quiet_step_atomic:
  assumes "quiet_step m"
  shows "atomic m"
  unfolding atomic_def
proof
  fix w
  obtain r w' where m: "m w = (r, w')" by (cases "m w")
  with assms have "quiet w w'" by (simp add: quiet_step_def)
  with m show "atomic_from w (m w)"
    by (auto simp: atomic_from_def quiet_def)
qed

lemma atomic_bind:
  assumes "quiet_step m" and "\<And>x. atomic (f x)"
  shows "atomic (io_bind m f)"
  unfolding atomic_def
proof
  fix w
  obtain r1 w1 where m: "m w = (r1, w1)" by (cases "m w")
  with assms(1) have q: "quiet w w1" by (simp add: quiet_step_def)
  show "atomic_from w (io_bind m f w)"
  proof (cases r1)
    case (Inl e)
    with m q show ?thesis
      by (auto simp: io_bind_def atomic_from_def quiet_def)
  next
    case (Inr x)
    from assms(2) have "atomic_from w1 (f x w1)" by (simp add: atomic_def)
    with m q Inr show ?thesis
      by (auto simp: io_bind_def atomic_from_def quiet_def)
  qed
qed

lemma atomic_if: "atomic a \<Longrightarrow> atomic b \<Longrightarrow> atomic (if c then a else b)"
  by simp

lemma atomic_case_prod: "(\<And>a b. atomic (f a b)) \<Longrightarrow> atomic (case_prod f p)"
  by (cases p) simp

lemma quiet_step_lift: "quiet_step (io_lift r)"
  by (simp add: quiet_step_def io_lift_def quiet_refl)

lemma quiet_step_return: "quiet_step (io_return x)"
  by (simp add: quiet_step_def io_return_def quiet_refl)

lemma quiet_step_s3_get: "quiet_step (s3_get env n bucket key)"
  by (auto simp: quiet_step_def s3_get_def log_call_logged quiet_logged_same)

lemma quiet_step_connect: "quiet_step (get_db_connection env)"
  by (auto simp: quiet_step_def get_db_connection_def log_call_logged quiet_logged quiet_logged_same
      split: option.splits)

lemma quiet_step_select: "quiet_step (db_select_file_hash env key)"
  by (auto simp: quiet_step_def db_select_file_hash_def log_call_logged quiet_logged quiet_logged_same
      Let_def split: option.splits)

lemma quiet_step_close: "quiet_step db_close"
  by (auto simp: quiet_step_def db_close_def log_call_logged quiet_logged)

lemma quiet_step_extract: "quiet_step (do_extract_text env body key)"
  by (auto simp: quiet_step_def do_extract_text_def log_call_logged quiet_logged_same)

lemma quiet_step_chunk: "quiet_step (do_chunk_text env text)"
  by (auto simp: quiet_step_def do_chunk_text_def log_call_logged quiet_logged_same)

lemma quiet_step_delete: "quiet_step (db_delete env key)"
  by (auto simp: quiet_step_def db_delete_def log_call_logged quiet_logged quiet_logged_same
      Let_def split: option.splits)

lemma quiet_step_insert: "quiet_step (db_insert env rows)"
  by (auto simp: quiet_step_def db_insert_def log_call_logged quiet_logged quiet_logged_same
      quiet_refl Let_def split: option.splits if_splits)

lemma quiet_step_upsert: "quiet_step (db_upsert env key h n)"
  by (auto simp: quiet_step_def db_upsert_def log_call_logged quiet_logged quiet_logged_same
      Let_def split: option.splits)

lemma atomic_commit_tail: "atomic (io_bind (db_commit env) (\<lambda>_. io_bind db_close (\<lambda>_. io_return resp)))"
  by (auto simp: atomic_def atomic_from_def io_bind_def db_commit_def db_close_def io_return_def
      log_call_logged split: option.splits)

subsection \<open>The embedding loop\<close>

lemma upt_shift: "[i ..< Suc (i + n)] = i # [Suc i ..< Suc (i + n)]"
  using upt_conv_Cons [of i "Suc (i + n)"] by simp

lemma embed_loop_world:
  "embed_loop env key h i chunks acc w = (r, w') \<Longrightarrow> \<exists>cs. w' = logged cs w"
proof (induction chunks arbitrary: i acc w)
  case Nil
  then have "w' = logged [] w" by simp
  then show ?case by blast
next
  case (Cons c cs)
  show ?case
  proof (cases "titan_embed env (JStr c)")
    case (Inl e)
    with Cons.prems have "w' = logged [BedrockEmbed (JStr c)] w"
      by (simp add: get_embedding_def log_call_logged)
    then show ?thesis by blast
  next
    case (Inr v)
    with Cons.prems obtain acc' where
      "embed_loop env key h (Suc i) cs acc' (logged [BedrockEmbed (JStr c)] w) = (r, w')"
      by (simp add: get_embedding_def log_call_logged)
    from Cons.IH [OF this] obtain ds where "w' = logged ds (logged [BedrockEmbed (JStr c)] w)"
      by blast
    then show ?thesis by (auto simp: logged_logged)
  qed
qed

lemma quiet_step_embed_loop: "quiet_step (embed_loop env key h i chunks acc)"
  by (auto simp: quiet_step_def quiet_logged_same dest: embed_loop_world)

lemma embed_loop_rows:
  "embed_loop env key h i chunks acc w = (Inr rows, w') \<Longrightarrow>
     map row_chunk_index rows = map row_chunk_index acc @ [i ..< i + length chunks] \<and>
     map row_chunk_text rows = map row_chunk_text acc @ chunks \<and>
     map row_filename rows = map row_filename acc @ replicate (length chunks) key \<and>
     map row_file_hash rows = map row_file_hash acc @ replicate (length chunks) h \<and>
     map (\<lambda>r. Inr (row_embedding r)) rows =
       map (\<lambda>r. Inr (row_embedding r)) acc @ map (\<lambda>c. titan_embed env (JStr c)) chunks \<and>
     w' = logged (map (\<lambda>c. BedrockEmbed (JStr c)) chunks) w"
proof (induction chunks arbitrary: i acc w)
  case Nil
  then show ?case by simp
next
  case (Cons c cs)
  from Cons.prems obtain v where v: "titan_embed env (JStr c) = Inr v"
    by (cases "titan_embed env (JStr c)") (auto simp: get_embedding_def)
  let ?row = "\<lparr>row_chunk_text = c, row_embedding = v, row_filename = key,
                 row_chunk_index = i, row_file_hash = h\<rparr>"
  from Cons.prems v have
    "embed_loop env key h (Suc i) cs (acc @ [?row]) (logged [BedrockEmbed (JStr c)] w) = (Inr rows, w')"
    by (simp add: get_embedding_def log_call_logged)
  from Cons.IH [OF this] show ?case
    by (simp add: v logged_logged upt_shift replicate_app_Cons_same del: upt_Suc)
qed

subsection \<open>The whole ingestion only ever shows the old or the new database\<close>

lemma atomic_persist: "atomic (persist env key h n rows)"
  unfolding persist_def
  by (intro atomic_bind quiet_step_delete quiet_step_insert quiet_step_upsert atomic_commit_tail)

lemma atomic_process_file: "atomic (process_file env bucket key h)"
  unfolding process_file_def
  by (intro atomic_bind quiet_step_s3_get quiet_step_extract quiet_step_chunk
      quiet_step_embed_loop atomic_persist)

lemma atomic_processor_try: "atomic (processor_try env event)"
  unfolding processor_try_def Let_def
  by (intro atomic_bind atomic_case_prod atomic_if quiet_step_lift quiet_step_s3_get
      quiet_step_connect quiet_step_select quiet_step_close quiet_step_atomic [OF quiet_step_return]
      atomic_process_file)

subsection \<open>What a successful ingestion leaves behind\<close>

lemma persist_success:
  assumes "persist env key h n rows w = (Inr resp, w')"
  shows "resp = processed key n \<and>
         committed w' =
           \<lparr>embeddings = filter (\<lambda>r. row_filename r \<noteq> key) (embeddings (working w)) @ rows,
            processed_files = (processed_files (working w))(key \<mapsto> (h, n))\<rparr> \<and>
         pending w' = None"
  using assms
  by (auto simp: persist_def io_bind_def db_delete_def db_insert_def db_upsert_def db_commit_def
      db_close_def io_return_def log_call_logged logged_logged logged_pending Let_def processed_def
      split: sum.splits prod.splits option.splits if_splits)

lemma io_bind_InrE:
  assumes "io_bind m f w = (Inr y, w')"
  obtains x w1 where "m w = (Inr x, w1)" and "f x w1 = (Inr y, w')"
  using assms by (auto simp: io_bind_def split: sum.splits prod.splits)

lemma embed_loop_length:
  assumes "embed_loop env key h i chunks [] w = (Inr rows, w')"
  shows "length rows = length chunks"
proof -
  from embed_loop_rows [OF assms] have "map row_chunk_text rows = chunks" by simp
  then show ?thesis by (metis length_map)
qed

lemma process_file_success:
  assumes "process_file env bucket key h w = (Inr resp, w')"
  shows "\<exists>body text chunks rows.
           s3_get_object env 2 bucket key = Inr body \<and>
           extract_text env body key = Inr text \<and>
           chunk_text env text = Inr chunks \<and>
           map row_chunk_index rows = [0 ..< length chunks] \<and>
           map row_chunk_text rows = chunks \<and>
           map row_filename rows = replicate (length chunks) key \<and>
           map row_file_hash rows = replicate (length chunks) h \<and>
           map (\<lambda>r. Inr (row_embedding r)) rows = map (\<lambda>c. titan_embed env (JStr c)) chunks \<and>
           resp = processed key (length chunks) \<and>
           committed w' = replace_document key h rows (working w) \<and>
           pending w' = None"
  using assms unfolding process_file_def
  apply (elim io_bind_InrE)
  apply (frule embed_loop_length)
  apply (drule embed_loop_rows)
  apply (drule persist_success)
  apply (auto simp: s3_get_def do_extract_text_def do_chunk_text_def log_call_logged logged_logged
      replace_document_def)
  done

lemma map_replicate_all: "map f xs = replicate n k \<Longrightarrow> x \<in> set xs \<Longrightarrow> f x = k"
  by (metis image_eqI in_set_replicate set_map)

lemma process_file_replaces:
  assumes "process_file env bucket key h w = (Inr resp, w')"
  shows "\<exists>rows. committed w' = replace_document key h rows (working w) \<and>
           (\<forall>x \<in> set rows. row_filename x = key \<and> row_file_hash x = h)"
proof -
  from process_file_success [OF assms] obtain chunks :: "string list" and rows where
    "map row_filename rows = replicate (length chunks) key"
    "map row_file_hash rows = replicate (length chunks) h"
    "committed w' = replace_document key h rows (working w)"
    by blast
  then show ?thesis
    by (blast dest: map_replicate_all)
qed

lemma processor_try_success:
  assumes "processor_try env event w = (Inr resp, w')"
  shows "\<exists>bucket key first_read file_bytes.
           s3_field event ''bucket'' ''name'' = Inr (JStr bucket) \<and>
           s3_field event ''object'' ''key'' = Inr (JStr key) \<and>
           s3_get_object env 0 bucket key = Inr first_read \<and>
           s3_get_object env 1 bucket key = Inr file_bytes \<and>
           (map_option fst (processed_files (committed w) key) = Some (md5_hexdigest env file_bytes) \<and>
              resp = already_processed \<and> committed w' = committed w
            \<or> (\<exists>w1. working w1 = committed w \<and>
                  process_file env bucket key (md5_hexdigest env file_bytes) w1 = (Inr resp, w')))"
  using assms
  by (auto simp: processor_try_def io_bind_def io_lift_def io_return_def str_params_def s3_get_def
      get_db_connection_def db_select_file_hash_def db_close_def log_call_logged logged_logged
      logged_pending Let_def already_processed_def
      split: sum.splits prod.splits option.splits json.splits if_splits)



subsection \<open>The query path\<close>

lemma query_try_falsy:
  assumes "parse_body env event = Inr (JObj b)"
    and "\<not> truthy (case map_of b ''question'' of None \<Rightarrow> JNull | Some v \<Rightarrow> v)"
  shows "query_try env event w = (Inr missing_question_response, w)"
  using assms
  by (simp add: query_try_def handle_request_def io_bind_def io_lift_def io_return_def dict_get_def
      missing_question_response_def)

lemma query_try_Inr:
  assumes "query_try env event w = (Inr resp, w')"
  shows "resp = missing_question_response \<and> w' = w \<or>
         (\<exists>q v chunks a. titan_embed env q = Inr v \<and> claude_answer env q chunks = Inr a \<and>
            resp = \<lparr>q_statusCode = 200, q_headers = json_headers,
                    q_body = Answer q a (map source_of chunks)\<rparr>)"
  using assms
  apply (simp add: query_try_def handle_request_def io_bind_def io_lift_def io_return_def get_embedding_def
      query_claude_def missing_question_response_def split: sum.splits prod.splits if_splits)
  apply blast
  done

lemma query_try_embed_fails:
  assumes "parse_body env event = Inr (JObj b)"
    and "map_of b ''question'' = Some q"
    and "truthy q"
    and "titan_embed env q = Inl e"
  shows "query_try env event w = (Inl e, log_call (BedrockEmbed q) w)"
  using assms
  by (simp add: query_try_def handle_request_def io_bind_def io_lift_def dict_get_def get_embedding_def)


lemma similarity_search_connect_fault:
  assumes "db_fault env Connect = Some e"
  shows "fst (similarity_search env v top_k w) = Inl e"
  using assms
  by (simp add: similarity_search_def io_bind_def get_db_connection_def)

lemma similarity_search_select_fault:
  assumes "db_fault env Connect = None"
    and "db_fault env SelectNearest = Some e"
  shows "fst (similarity_search env v top_k w) = Inl e"
  using assms
  by (simp add: similarity_search_def io_bind_def get_db_connection_def db_select_nearest_def
      Let_def)

lemma handler_parse_fails:
  assumes "parse_body env event = Inl e"
  shows "query_lambda_handler env event w = (server_error e, w)"
  using assms
  by (simp add: query_lambda_handler_def respond_def query_try_def io_bind_def io_lift_def
      server_error_def)

lemma handler_no_object:
  assumes "parse_body env event = Inr body"
    and "\<forall>b. body \<noteq> JObj b"
  shows "query_lambda_handler env event w = (server_error AttributeError, w)"
  using assms
  by (cases body)
     (simp_all add: query_lambda_handler_def respond_def query_try_def handle_request_def
        io_bind_def io_lift_def dict_get_def server_error_def)

lemma found_chunks_world [simp]:
  "found_chunks env v bound (w\<lparr>calls := cs\<rparr>) = found_chunks env v bound w"
  "found_chunks env v bound (w\<lparr>visible := vs\<rparr>) = found_chunks env v bound w"
  "found_chunks env v bound (w\<lparr>pending := p\<rparr>) = found_chunks env v bound w"
  by (simp_all add: found_chunks_def)

lemma handler_asked:
  assumes "parse_body env event = Inr (JObj b) \<and> map_of b ''question'' = Some q \<and> truthy q"
  shows "fst (query_lambda_handler env event w) =
        (case titan_embed env q of
           Inl e \<Rightarrow> server_error e
         | Inr v \<Rightarrow>
            (case db_fault env Connect of
               Some e \<Rightarrow> server_error e
             | None \<Rightarrow>
                (case db_fault env SelectNearest of
                   Some e \<Rightarrow> server_error e
                 | None \<Rightarrow>
                    (case pg_limit env (requested_top_k b) of
                       Inl e \<Rightarrow> server_error e
                     | Inr bound \<Rightarrow>
                        (case claude_answer env q (found_chunks env v bound w) of
                           Inl e \<Rightarrow> server_error e
                         | Inr a \<Rightarrow>
                             \<lparr>q_statusCode = 200, q_headers = json_headers,
                              q_body = Answer q a
                                (map source_of (found_chunks env v bound w))\<rparr>)))))"
  using assms
  by (simp add: query_lambda_handler_def respond_def query_try_def handle_request_def
      io_bind_def io_lift_def io_return_def dict_get_def get_embedding_def
      similarity_search_def get_db_connection_def db_select_nearest_def db_close_def
      query_claude_def found_chunks_def log_call_def Let_def requested_top_k_def
      server_error_def split: sum.splits option.splits)

lemma map_of_without: "map_of (filter (\<lambda>kv. fst kv \<noteq> k) kvs) k = None"
  by (induction kvs) auto





section \<open>The ingestion handler\<close>

text \<open>
  C1. When the hash stored for the key equals the MD5 of the bytes read from S3, the handler
  returns status 200 with the message 'File already processed'. Beyond the two reads of the
  object, the connection, the hash lookup and the closing of the connection it calls
  nothing: no extraction, no embedding, no delete, insert, upsert or commit, and the
  committed database is the one it started from.
\<close>

theorem unchanged_file_short_circuits:
  assumes "s3_field event ''bucket'' ''name'' = Inr (JStr bucket)"
    and "s3_field event ''object'' ''key'' = Inr (JStr key)"
    and "s3_get_object env 0 bucket key = Inr first_read"
    and "s3_get_object env 1 bucket key = Inr file_bytes"
    and "db_fault env Connect = None"
    and "db_fault env SelectFileHash = None"
    and "processed_files (committed w) key = Some (md5_hexdigest env file_bytes, n)"
  shows "\<exists>w'. processor_lambda_handler env event w = (Inr already_processed, w') \<and>
           committed w' = committed w \<and> pending w' = None \<and>
           calls w' = calls w @ [S3GetObject bucket key, S3GetObject bucket key, DbConnect,
                                 DbSelectFileHash key, DbClose]"
  using assms
  by (simp add: processor_lambda_handler_def processor_try_def io_bind_def io_lift_def
      io_return_def str_params_def s3_get_def get_db_connection_def db_select_file_hash_def
      db_close_def log_call_logged logged_logged logged_pending Let_def already_processed_def)

theorem unchanged_file_short_circuits_witness:
  "\<exists>w'. processor_lambda_handler demo_env (s3_event ''b'' ''notes.txt'')
           (world_of (stored_notes ''#hello world'')) = (Inr already_processed, w') \<and>
         committed w' = stored_notes ''#hello world'' \<and>
         calls w' = [S3GetObject ''b'' ''notes.txt'', S3GetObject ''b'' ''notes.txt'', DbConnect,
                     DbSelectFileHash ''notes.txt'', DbClose]"
proof -
  have "s3_field (s3_event ''b'' ''notes.txt'') ''bucket'' ''name'' = Inr (JStr ''b'')"
    and "s3_field (s3_event ''b'' ''notes.txt'') ''object'' ''key'' = Inr (JStr ''notes.txt'')"
    and "s3_get_object demo_env 0 ''b'' ''notes.txt'' = Inr ''hello world''"
    and "s3_get_object demo_env 1 ''b'' ''notes.txt'' = Inr ''hello world''"
    and "db_fault demo_env Connect = None"
    and "db_fault demo_env SelectFileHash = None"
    and "processed_files (committed (world_of (stored_notes ''#hello world''))) ''notes.txt'' =
           Some (md5_hexdigest demo_env ''hello world'', 3)"
    by (simp_all add: demo_defs s3_field_def sum_bind_def)
  from unchanged_file_short_circuits [OF this] show ?thesis
    by (auto simp: world_of_def)
qed

text \<open>
  C2. Whatever happens during an ingestion, another session only ever sees the database as
  it was before or as it is at the end; if the handler raises, the database at the end is
  the one before; and if the database changed, it is the old one with the document replaced
  as a whole: the prior chunks of the key deleted, the new chunks inserted, each carrying the
  hash that the metadata row now holds.
\<close>

theorem ingestion_commits_as_one_unit:
  assumes run: "processor_lambda_handler env event w = (r, w')"
  shows "(\<forall>e. r = Inl e \<longrightarrow> committed w' = committed w) \<and>
         (\<exists>xs. visible w' = visible w @ xs \<and> (\<forall>s \<in> set xs. s = committed w \<or> s = committed w')) \<and>
         (committed w' = committed w \<or>
          (\<exists>key h rows. committed w' = replace_document key h rows (committed w) \<and>
             (\<forall>x \<in> set rows. row_filename x = key \<and> row_file_hash x = h)))"
proof -
  obtain r0 w0 where t: "processor_try env event w = (r0, w0)"
    by (cases "processor_try env event w")
  from run t have same: "r = r0" "committed w' = committed w0" "visible w' = visible w0"
    by (auto simp: processor_lambda_handler_def split: sum.splits)
  from atomic_processor_try [of env event] t have a: "atomic_from w (r0, w0)"
    by (metis atomic_def)
  from a same have first: "\<forall>e. r = Inl e \<longrightarrow> committed w' = committed w"
    by (simp add: atomic_from_def)
  from a same have second:
    "\<exists>xs. visible w' = visible w @ xs \<and> (\<forall>s \<in> set xs. s = committed w \<or> s = committed w')"
    by (auto simp: atomic_from_def)
  have third: "committed w' = committed w \<or>
          (\<exists>key h rows. committed w' = replace_document key h rows (committed w) \<and>
             (\<forall>x \<in> set rows. row_filename x = key \<and> row_file_hash x = h))"
  proof (cases r0)
    case (Inl e)
    with first same show ?thesis by simp
  next
    case (Inr resp)
    with t have "processor_try env event w = (Inr resp, w0)" by simp
    from processor_try_success [OF this] obtain bucket key file_bytes where
      cases: "committed w0 = committed w \<or>
              (\<exists>w1. working w1 = committed w \<and>
                 process_file env bucket key (md5_hexdigest env file_bytes) w1 = (Inr resp, w0))"
      by blast
    show ?thesis
    proof (cases "committed w0 = committed w")
      case True
      with same show ?thesis by simp
    next
      case False
      with cases obtain w1 where w1: "working w1 = committed w"
        and p: "process_file env bucket key (md5_hexdigest env file_bytes) w1 = (Inr resp, w0)"
        by blast
      from process_file_replaces [OF p] w1 same show ?thesis
        by auto
    qed
  qed
  from first second third show ?thesis by blast
qed

theorem ingestion_commits_as_one_unit_witness:
  "fst (processor_lambda_handler (demo_env\<lparr>db_fault := insert_fails\<rparr>)
          (s3_event ''b'' ''notes.txt'') (world_of (stored_notes ''old''))) = Inl (ExternalError ''down'') \<and>
   committed (snd (processor_lambda_handler (demo_env\<lparr>db_fault := insert_fails\<rparr>)
          (s3_event ''b'' ''notes.txt'') (world_of (stored_notes ''old'')))) = stored_notes ''old''"
  using ingestion_commits_as_one_unit [of "demo_env\<lparr>db_fault := insert_fails\<rparr>"
      "s3_event ''b'' ''notes.txt''" "world_of (stored_notes ''old'')"
      "fst (processor_lambda_handler (demo_env\<lparr>db_fault := insert_fails\<rparr>)
          (s3_event ''b'' ''notes.txt'') (world_of (stored_notes ''old'')))"
      "snd (processor_lambda_handler (demo_env\<lparr>db_fault := insert_fails\<rparr>)
          (s3_event ''b'' ''notes.txt'') (world_of (stored_notes ''old'')))"]
  by (simp add: handler_defs demo_defs)






section \<open>The query handler\<close>




text \<open>
  C7, as the code has it. A missing \<open>top_k\<close> becomes 5. A \<open>top_k\<close> that is present goes to
  the search as it is, whatever its value: zero, a negative number and a number of any size
  all reach the \<^verbatim>\<open>LIMIT\<close> of the SELECT unchanged.
\<close>

theorem top_k_is_passed_unchanged:
  assumes "parse_body env event = Inr (JObj b)"
    and "map_of b ''question'' = Some q"
    and "truthy q"
    and "titan_embed env q = Inr v"
    and "db_fault env Connect = None"
  shows "\<exists>rest. calls (snd (query_lambda_handler env event w)) =
           calls w @ [BedrockEmbed q, DbConnect, DbSelectNearest v (requested_top_k b)] @ rest"
  using assms
  by (auto simp: query_lambda_handler_def respond_def query_try_def handle_request_def dict_get_def io_bind_def io_lift_def
      io_return_def get_embedding_def similarity_search_def get_db_connection_def
      db_select_nearest_def db_close_def query_claude_def log_call_def Let_def
      requested_top_k_def
      split: sum.splits prod.splits option.splits)

theorem top_k_is_passed_unchanged_witness:
  "\<exists>rest. calls (snd (query_lambda_handler demo_env
       [(''question'', JStr ''q''), (''top_k'', JInt (- 1))] (world_of demo_store))) =
     [BedrockEmbed (JStr ''q''), DbConnect, DbSelectNearest [1, 0] (JInt (- 1))] @ rest"
proof -
  have "parse_body demo_env [(''question'', JStr ''q''), (''top_k'', JInt (- 1))] =
          Inr (JObj [(''question'', JStr ''q''), (''top_k'', JInt (- 1))])"
    and "map_of [(''question'', JStr ''q''), (''top_k'', JInt (- 1))] ''question'' = Some (JStr ''q'')"
    and "truthy (JStr ''q'')"
    and "titan_embed demo_env (JStr ''q'') = Inr [1, 0]"
    and "db_fault demo_env Connect = None"
    by (simp_all add: parse_body_def demo_env_def)
  from top_k_is_passed_unchanged [OF this, of "world_of demo_store"] show ?thesis
    by (simp add: requested_top_k_def world_of_def)
qed

text \<open>
  C7, as it is worded, fails: with \<open>top_k = 0\<close> the search is called with 0 and the request
  is answered from no chunk at all, where the default of 5 would have returned the three
  stored chunks.
\<close>

theorem nonpositive_top_k_counterexample:
  "query_lambda_handler demo_env [(''question'', JStr ''q''), (''top_k'', JInt 0)]
     (world_of demo_store) =
     (\<lparr>q_statusCode = 200, q_headers = json_headers, q_body = Answer (JStr ''q'') ''Paris'' []\<rparr>,
      \<lparr>committed = demo_store, pending = None,
       calls = [BedrockEmbed (JStr ''q''), DbConnect, DbSelectNearest [1, 0] (JInt 0), DbClose,
                BedrockClaude (JStr ''q'') []],
       visible = [demo_store, demo_store, demo_store, demo_store, demo_store]\<rparr>) \<and>
   q_body (fst (query_lambda_handler demo_env [(''question'', JStr ''q'')] (world_of demo_store))) =
     Answer (JStr ''q'') ''Paris'' [(''doc1'', 0, 1), (''doc2'', 1, 0), (''doc2'', 0, - 1)]"
  by (simp add: handler_defs demo_defs json_headers_def)

text \<open>
  C8, as the code has it. The request body is the event itself when the event has no
  \<open>body\<close> key, the decoded \<open>body\<close> when that is a string, and the \<open>body\<close> as it is
  otherwise. A request whose body is a JSON object without a \<open>question\<close>
  gets status 400 with the error payload, and the handler calls nothing on the way (the
  world is unchanged). A body that is no object (\<open>null\<close>, a list, a number, a string that
  decodes to one of these) gets status 500 for the \<open>AttributeError\<close> of \<^verbatim>\<open>body.get\<close>,
  again with nothing called, and so does a body that \<^verbatim>\<open>json.loads\<close> rejects, for its
  exception. With a truthy \<open>question\<close>, the first of the embedding call, the connection,
  the SELECT, its \<^verbatim>\<open>LIMIT\<close> and the generation call to raise decides the response: status
  500 with that exception; only when none raises is the status 200, with the reply of the
  generation model as the answer.
\<close>

theorem query_errors_are_reported:
  assumes "query_lambda_handler env event w = (resp, w')"
  shows "(map_of event ''body'' = None \<longrightarrow> parse_body env event = Inr (JObj event)) \<and>
         (\<forall>s. map_of event ''body'' = Some (JStr s) \<longrightarrow> parse_body env event = json_loads env s) \<and>
         (\<forall>v. map_of event ''body'' = Some v \<and> (\<forall>s. v \<noteq> JStr s) \<longrightarrow>
            parse_body env event = Inr v) \<and>
         (\<forall>e. parse_body env event = Inl e \<longrightarrow> resp = server_error e \<and> w' = w) \<and>
         (\<forall>body. parse_body env event = Inr body \<and> (\<forall>b. body \<noteq> JObj b) \<longrightarrow>
            resp = server_error AttributeError \<and> w' = w) \<and>
         (\<forall>b. parse_body env event = Inr (JObj b) \<and> map_of b ''question'' = None \<longrightarrow>
            resp = missing_question_response \<and> w' = w) \<and>
         (\<forall>b q. parse_body env event = Inr (JObj b) \<and> map_of b ''question'' = Some q \<and> truthy q \<longrightarrow>
            (\<forall>e. titan_embed env q = Inl e \<longrightarrow>
               resp = server_error e \<and> calls w' = calls w @ [BedrockEmbed q]) \<and>
            (\<forall>v. titan_embed env q = Inr v \<longrightarrow>
               (\<forall>e. db_fault env Connect = Some e \<longrightarrow> resp = server_error e) \<and>
               (db_fault env Connect = None \<longrightarrow>
                  (\<forall>e. db_fault env SelectNearest = Some e \<longrightarrow> resp = server_error e) \<and>
                  (db_fault env SelectNearest = None \<longrightarrow>
                     (\<forall>e. pg_limit env (requested_top_k b) = Inl e \<longrightarrow> resp = server_error e) \<and>
                     (\<forall>bound. pg_limit env (requested_top_k b) = Inr bound \<longrightarrow>
                        (\<forall>e. claude_answer env q (found_chunks env v bound w) = Inl e \<longrightarrow>
                           resp = server_error e) \<and>
                        (\<forall>a. claude_answer env q (found_chunks env v bound w) = Inr a \<longrightarrow>
                           resp = \<lparr>q_statusCode = 200, q_headers = json_headers,
                                   q_body = Answer q a
                                     (map source_of (found_chunks env v bound w))\<rparr>)))))) \<and>
         (resp = missing_question_response \<and> w' = w \<or>
          (\<exists>e. resp = server_error e) \<or>
          (\<exists>q v chunks a. titan_embed env q = Inr v \<and> claude_answer env q chunks = Inr a \<and>
             resp = \<lparr>q_statusCode = 200, q_headers = json_headers,
                     q_body = Answer q a (map source_of chunks)\<rparr>))"
proof -
  from assms have resp: "resp = fst (query_lambda_handler env event w)"
    by simp
  have no_body: "map_of event ''body'' = None \<longrightarrow> parse_body env event = Inr (JObj event)"
    by (simp add: parse_body_def)
  have text_body: "\<forall>s. map_of event ''body'' = Some (JStr s) \<longrightarrow>
      parse_body env event = json_loads env s"
    by (simp add: parse_body_def)
  have other_body: "\<forall>v. map_of event ''body'' = Some v \<and> (\<forall>s. v \<noteq> JStr s) \<longrightarrow>
            parse_body env event = Inr v"
    by (auto simp: parse_body_def split: json.splits)
  have loads: "\<forall>e. parse_body env event = Inl e \<longrightarrow> resp = server_error e \<and> w' = w"
    using assms by (auto simp: handler_parse_fails)
  have no_object: "\<forall>body. parse_body env event = Inr body \<and> (\<forall>b. body \<noteq> JObj b) \<longrightarrow>
            resp = server_error AttributeError \<and> w' = w"
    using assms by (auto simp: handler_no_object)
  have missing: "\<forall>b. parse_body env event = Inr (JObj b) \<and> map_of b ''question'' = None \<longrightarrow>
            resp = missing_question_response \<and> w' = w"
    using assms by (auto simp: query_lambda_handler_def respond_def query_try_falsy)
  have asked: "\<forall>b q. parse_body env event = Inr (JObj b) \<and> map_of b ''question'' = Some q \<and> truthy q \<longrightarrow>
            (\<forall>e. titan_embed env q = Inl e \<longrightarrow>
               resp = server_error e \<and> calls w' = calls w @ [BedrockEmbed q]) \<and>
            (\<forall>v. titan_embed env q = Inr v \<longrightarrow>
               (\<forall>e. db_fault env Connect = Some e \<longrightarrow> resp = server_error e) \<and>
               (db_fault env Connect = None \<longrightarrow>
                  (\<forall>e. db_fault env SelectNearest = Some e \<longrightarrow> resp = server_error e) \<and>
                  (db_fault env SelectNearest = None \<longrightarrow>
                     (\<forall>e. pg_limit env (requested_top_k b) = Inl e \<longrightarrow> resp = server_error e) \<and>
                     (\<forall>bound. pg_limit env (requested_top_k b) = Inr bound \<longrightarrow>
                        (\<forall>e. claude_answer env q (found_chunks env v bound w) = Inl e \<longrightarrow>
                           resp = server_error e) \<and>
                        (\<forall>a. claude_answer env q (found_chunks env v bound w) = Inr a \<longrightarrow>
                           resp = \<lparr>q_statusCode = 200, q_headers = json_headers,
                                   q_body = Answer q a
                                     (map source_of (found_chunks env v bound w))\<rparr>)))))"
  proof (intro allI impI)
    fix b q
    assume body: "parse_body env event = Inr (JObj b) \<and> map_of b ''question'' = Some q \<and> truthy q"
    then have tree: "resp =
        (case titan_embed env q of
           Inl e \<Rightarrow> server_error e
         | Inr v \<Rightarrow>
            (case db_fault env Connect of
               Some e \<Rightarrow> server_error e
             | None \<Rightarrow>
                (case db_fault env SelectNearest of
                   Some e \<Rightarrow> server_error e
                 | None \<Rightarrow>
                    (case pg_limit env (requested_top_k b) of
                       Inl e \<Rightarrow> server_error e
                     | Inr bound \<Rightarrow>
                        (case claude_answer env q (found_chunks env v bound w) of
                           Inl e \<Rightarrow> server_error e
                         | Inr a \<Rightarrow>
                             \<lparr>q_statusCode = 200, q_headers = json_headers,
                              q_body = Answer q a
                                (map source_of (found_chunks env v bound w))\<rparr>)))))"
      unfolding resp by (simp add: handler_asked)
    from body assms have embed: "\<forall>e. titan_embed env q = Inl e \<longrightarrow>
        calls w' = calls w @ [BedrockEmbed q]"
      by (auto simp: query_lambda_handler_def respond_def query_try_embed_fails log_call_def)
    from tree embed show "(\<forall>e. titan_embed env q = Inl e \<longrightarrow>
               resp = server_error e \<and> calls w' = calls w @ [BedrockEmbed q]) \<and>
            (\<forall>v. titan_embed env q = Inr v \<longrightarrow>
               (\<forall>e. db_fault env Connect = Some e \<longrightarrow> resp = server_error e) \<and>
               (db_fault env Connect = None \<longrightarrow>
                  (\<forall>e. db_fault env SelectNearest = Some e \<longrightarrow> resp = server_error e) \<and>
                  (db_fault env SelectNearest = None \<longrightarrow>
                     (\<forall>e. pg_limit env (requested_top_k b) = Inl e \<longrightarrow> resp = server_error e) \<and>
                     (\<forall>bound. pg_limit env (requested_top_k b) = Inr bound \<longrightarrow>
                        (\<forall>e. claude_answer env q (found_chunks env v bound w) = Inl e \<longrightarrow>
                           resp = server_error e) \<and>
                        (\<forall>a. claude_answer env q (found_chunks env v bound w) = Inr a \<longrightarrow>
                           resp = \<lparr>q_statusCode = 200, q_headers = json_headers,
                                   q_body = Answer q a
                                     (map source_of (found_chunks env v bound w))\<rparr>)))))"
      by simp
  qed
  have kinds: "resp = missing_question_response \<and> w' = w \<or>
          (\<exists>e. resp = server_error e) \<or>
          (\<exists>q v chunks a. titan_embed env q = Inr v \<and> claude_answer env q chunks = Inr a \<and>
             resp = \<lparr>q_statusCode = 200, q_headers = json_headers,
                     q_body = Answer q a (map source_of chunks)\<rparr>)"
  proof (cases "fst (query_try env event w)")
    case (Inl e)
    with assms have "resp = server_error e"
      by (auto simp: query_lambda_handler_def respond_def server_error_def
          split: sum.splits prod.splits)
    then show ?thesis by blast
  next
    case (Inr r)
    with assms have "query_try env event w = (Inr resp, w')"
      by (cases "query_try env event w") (auto simp: query_lambda_handler_def respond_def)
    from query_try_Inr [OF this] show ?thesis by blast
  qed
  from no_body text_body other_body loads no_object missing asked kinds show ?thesis
    by (intro conjI)
qed

theorem query_errors_are_reported_witness:
  "query_lambda_handler demo_env [(''top_k'', JInt 3)] (world_of demo_store) =
     (missing_question_response, world_of demo_store) \<and>
   fst (query_lambda_handler (demo_env\<lparr>db_fault := search_fails\<rparr>) [(''question'', JStr ''q'')]
     (world_of demo_store)) = server_error (ExternalError ''down'')"
proof -
  let ?down = "demo_env\<lparr>db_fault := search_fails\<rparr>"
  have run: "query_lambda_handler demo_env [(''top_k'', JInt 3)] (world_of demo_store) =
      (fst (query_lambda_handler demo_env [(''top_k'', JInt 3)] (world_of demo_store)),
       snd (query_lambda_handler demo_env [(''top_k'', JInt 3)] (world_of demo_store)))"
    by simp
  have "parse_body demo_env [(''top_k'', JInt 3)] = Inr (JObj [(''top_k'', JInt 3)]) \<and>
        map_of [(''top_k'', JInt 3)] ''question'' = None"
    by (simp add: parse_body_def)
  moreover from query_errors_are_reported [OF run]
  have "\<forall>b. parse_body demo_env [(''top_k'', JInt 3)] = Inr (JObj b) \<and>
      map_of b ''question'' = None \<longrightarrow>
      fst (query_lambda_handler demo_env [(''top_k'', JInt 3)] (world_of demo_store)) =
        missing_question_response \<and>
      snd (query_lambda_handler demo_env [(''top_k'', JInt 3)] (world_of demo_store)) =
        world_of demo_store"
    by (elim conjE)
  ultimately have first: "query_lambda_handler demo_env [(''top_k'', JInt 3)] (world_of demo_store) =
     (missing_question_response, world_of demo_store)"
    by (metis prod.collapse)
  have run': "query_lambda_handler ?down [(''question'', JStr ''q'')] (world_of demo_store) =
      (fst (query_lambda_handler ?down [(''question'', JStr ''q'')] (world_of demo_store)),
       snd (query_lambda_handler ?down [(''question'', JStr ''q'')] (world_of demo_store)))"
    by simp
  have asked: "parse_body ?down [(''question'', JStr ''q'')] = Inr (JObj [(''question'', JStr ''q'')]) \<and>
        map_of [(''question'', JStr ''q'')] ''question'' = Some (JStr ''q'') \<and> truthy (JStr ''q'')"
    by (simp add: parse_body_def)
  have down: "titan_embed ?down (JStr ''q'') = Inr [1, 0]" "db_fault ?down Connect = None"
    "db_fault ?down SelectNearest = Some (ExternalError ''down'')"
    by (simp_all add: demo_env_def search_fails_def)
  from query_errors_are_reported [OF run'] asked down
  have second: "fst (query_lambda_handler ?down [(''question'', JStr ''q'')] (world_of demo_store)) =
      server_error (ExternalError ''down'')"
    by blast
  from first second show ?thesis by simp
qed

text \<open>
  C8, as it is worded, fails: a request whose body is \<open>null\<close> has no \<open>question\<close> field, and
  the handler answers it with status 500, not with the client-error response.
\<close>

theorem missing_question_counterexample:
  "query_lambda_handler demo_env [(''body'', JNull)] (world_of demo_store) =
     (\<lparr>q_statusCode = 500, q_headers = [], q_body = ErrorOf AttributeError\<rparr>,
      world_of demo_store)"
  by (simp add: query_lambda_handler_def respond_def query_try_def handle_request_def
      parse_body_def dict_get_def io_bind_def io_lift_def)

text \<open>
  C9. A \<open>question\<close> that is present but falsy (the empty string, \<open>null\<close>, \<open>0\<close>, \<open>false\<close>,
  an empty list or dict) gets the same 400 response as a missing one, with the world
  unchanged: no embedding, search or generation call. The response is the one the handler
  gives to the same body with the \<open>question\<close> entry removed.
\<close>

theorem falsy_question_is_missing_question:
  assumes "parse_body env event = Inr (JObj b)"
    and "map_of b ''question'' = Some v"
    and "\<not> truthy v"
  shows "query_lambda_handler env event w = (missing_question_response, w) \<and>
         query_lambda_handler env event w =
           query_lambda_handler env [(''body'', JObj (filter (\<lambda>kv. fst kv \<noteq> ''question'') b))] w"
proof -
  from assms have falsy: "query_try env event w = (Inr missing_question_response, w)"
    by (simp add: query_try_falsy)
  have "parse_body env [(''body'', JObj (filter (\<lambda>kv. fst kv \<noteq> ''question'') b))] =
          Inr (JObj (filter (\<lambda>kv. fst kv \<noteq> ''question'') b))"
    by (simp add: parse_body_def)
  then have "query_try env [(''body'', JObj (filter (\<lambda>kv. fst kv \<noteq> ''question'') b))] w =
          (Inr missing_question_response, w)"
    by (rule query_try_falsy) (simp add: map_of_without)
  with falsy show ?thesis
    by (simp add: query_lambda_handler_def respond_def)
qed

theorem falsy_question_is_missing_question_witness:
  "query_lambda_handler demo_env [(''question'', JStr '''')] (world_of demo_store) =
     (missing_question_response, world_of demo_store)"
proof -
  have "parse_body demo_env [(''question'', JStr '''')] = Inr (JObj [(''question'', JStr '''')])"
    and "map_of [(''question'', JStr '''')] ''question'' = Some (JStr '''')"
    and "\<not> truthy (JStr '''')"
    by (simp_all add: parse_body_def)
  from falsy_question_is_missing_question [OF this] show ?thesis
    by simp
qed

text \<open>
  C10. An event without a \<open>body\<close> key is handled with the event itself as the request body;
  an event whose \<open>body\<close> is a dict is handled with that dict; an event whose \<open>body\<close> is a
  string is handled with what \<^verbatim>\<open>json.loads\<close> makes of it, or answered with status 500 for
  the exception of \<^verbatim>\<open>json.loads\<close>. When the event's own \<open>question\<close> and \<open>top_k\<close>
  entries are those of the dict, and the string decodes to the dict, the three events
  get the same response and make the same calls.
\<close>

theorem body_shapes_agree:
  assumes "map_of ev1 ''body'' = None"
    and "map_of ev2 ''body'' = Some (JObj b)"
    and "map_of ev3 ''body'' = Some (JStr s)"
  shows "query_lambda_handler env ev1 w = respond (handle_request env (JObj ev1) w) \<and>
         query_lambda_handler env ev2 w = respond (handle_request env (JObj b) w) \<and>
         query_lambda_handler env ev3 w =
           respond (case json_loads env s of
                      Inl e \<Rightarrow> (Inl e, w)
                    | Inr body \<Rightarrow> handle_request env body w) \<and>
         (map_of ev1 ''question'' = map_of b ''question'' \<and>
          map_of ev1 ''top_k'' = map_of b ''top_k'' \<and>
          json_loads env s = Inr (JObj b) \<longrightarrow>
            query_lambda_handler env ev1 w = query_lambda_handler env ev2 w \<and>
            query_lambda_handler env ev3 w = query_lambda_handler env ev2 w)"
proof -
  from assms(1) have first: "query_lambda_handler env ev1 w = respond (handle_request env (JObj ev1) w)"
    by (simp add: query_lambda_handler_def query_try_def parse_body_def io_bind_def io_lift_def)
  from assms(2) have second: "query_lambda_handler env ev2 w = respond (handle_request env (JObj b) w)"
    by (simp add: query_lambda_handler_def query_try_def parse_body_def io_bind_def io_lift_def)
  from assms(3) have third: "query_lambda_handler env ev3 w =
           respond (case json_loads env s of
                      Inl e \<Rightarrow> (Inl e, w)
                    | Inr body \<Rightarrow> handle_request env body w)"
    by (simp add: query_lambda_handler_def query_try_def parse_body_def io_bind_def io_lift_def
        split: sum.splits)
  have same: "map_of ev1 ''question'' = map_of b ''question'' \<and>
          map_of ev1 ''top_k'' = map_of b ''top_k'' \<and>
          json_loads env s = Inr (JObj b) \<longrightarrow>
            query_lambda_handler env ev1 w = query_lambda_handler env ev2 w \<and>
            query_lambda_handler env ev3 w = query_lambda_handler env ev2 w"
  proof
    assume eq: "map_of ev1 ''question'' = map_of b ''question'' \<and>
          map_of ev1 ''top_k'' = map_of b ''top_k'' \<and> json_loads env s = Inr (JObj b)"
    then have "handle_request env (JObj ev1) w = handle_request env (JObj b) w"
      by (simp add: handle_request_def dict_get_def io_bind_def io_lift_def)
    with first second third eq
    show "query_lambda_handler env ev1 w = query_lambda_handler env ev2 w \<and>
            query_lambda_handler env ev3 w = query_lambda_handler env ev2 w"
      by simp
  qed
  from first second third same show ?thesis
    by (intro conjI)
qed

theorem body_shapes_agree_witness:
  "fst (query_lambda_handler demo_env [(''body'', JObj [(''question'', JStr ''capital?'')])]
     (world_of demo_store)) =
     \<lparr>q_statusCode = 200, q_headers = json_headers,
      q_body = Answer (JStr ''capital?'') ''Paris''
        [(''doc1'', 0, 1), (''doc2'', 1, 0), (''doc2'', 0, - 1)]\<rparr> \<and>
   query_lambda_handler demo_env [(''question'', JStr ''capital?'')] (world_of demo_store) =
     query_lambda_handler demo_env [(''body'', JObj [(''question'', JStr ''capital?'')])]
       (world_of demo_store) \<and>
   query_lambda_handler demo_env [(''body'', JStr ''ask'')] (world_of demo_store) =
     query_lambda_handler demo_env [(''body'', JObj [(''question'', JStr ''capital?'')])]
       (world_of demo_store)"
proof -
  have common: "fst (query_lambda_handler demo_env [(''body'', JObj [(''question'', JStr ''capital?'')])]
     (world_of demo_store)) =
     \<lparr>q_statusCode = 200, q_headers = json_headers,
      q_body = Answer (JStr ''capital?'') ''Paris''
        [(''doc1'', 0, 1), (''doc2'', 1, 0), (''doc2'', 0, - 1)]\<rparr>"
    by (simp add: handler_defs demo_defs json_headers_def)
  have shapes: "map_of [(''question'', JStr ''capital?'')] ''body'' = None"
    "map_of [(''body'', JObj [(''question'', JStr ''capital?'')])] ''body'' =
           Some (JObj [(''question'', JStr ''capital?'')])"
    "map_of [(''body'', JStr ''ask'')] ''body'' = Some (JStr ''ask'')"
    by simp_all
  have equal: "map_of [(''question'', JStr ''capital?'')] ''question'' =
           map_of [(''question'', JStr ''capital?'')] ''question'' \<and>
         map_of [(''question'', JStr ''capital?'')] ''top_k'' =
           map_of [(''question'', JStr ''capital?'')] ''top_k'' \<and>
         json_loads demo_env ''ask'' = Inr (JObj [(''question'', JStr ''capital?'')])"
    by (simp add: demo_env_def)
  from body_shapes_agree [OF shapes, of demo_env "world_of demo_store"] equal
  have "query_lambda_handler demo_env [(''question'', JStr ''capital?'')] (world_of demo_store) =
     query_lambda_handler demo_env [(''body'', JObj [(''question'', JStr ''capital?'')])]
       (world_of demo_store) \<and>
   query_lambda_handler demo_env [(''body'', JStr ''ask'')] (world_of demo_store) =
     query_lambda_handler demo_env [(''body'', JObj [(''question'', JStr ''capital?'')])]
       (world_of demo_store)"
    by blast
  with common show ?thesis by simp
qed


end
